theory Spec2Isabelle
  imports Main
begin

section \<open>Data exchanged with the remote API\<close>

text \<open>
  The file \<^verbatim>\<open>gamesContext.tsx\<close> holds two React providers: \<^verbatim>\<open>LoginProvider\<close> (the
  session manager) and \<^verbatim>\<open>GamesProvider\<close> (the resource store).  A game is a JSON
  object, read by the code through its keys only (\<^verbatim>\<open>el.id\<close>, \<^verbatim>\<open>'name' in json\<close>), so it
  is a finite map from keys to values.
\<close>

datatype jval = JNum int | JStr string | JNull

type_synonym game = "string \<rightharpoonup> jval"

text \<open>\<^verbatim>\<open>ApiError\<close>: a status code and a message that is a string or a list of strings.\<close>

datatype err_message = Message string | Messages "string list"

record ApiError =
  code :: int
  message :: err_message

text \<open>What a call of the API client resolves with: \<^verbatim>\<open>{ status, json }\<close>.\<close>

record 'j response =
  status :: int
  json :: 'j

text \<open>The body of the list request is tested with \<^verbatim>\<open>Array.isArray\<close>.\<close>

datatype games_json = JArray "game list" | JObject game

text \<open>
  A promise returned by the API client either resolves with a response or rejects with
  an \<^verbatim>\<open>ApiError\<close>.  Its \<^verbatim>\<open>then\<close> and \<^verbatim>\<open>catch\<close> callbacks never run inside the call that
  attached them: they run as microtasks after the running synchronous code returned.
\<close>

datatype 'a settled = Resolves 'a | Rejects ApiError

datatype LoadingState = LOADING | DONE | ERROR

section \<open>The session manager: \<^verbatim>\<open>LoginProvider\<close>\<close>

text \<open>
  The Firebase user is known to the code through \<^verbatim>\<open>getIdToken(forceRefresh)\<close> only;
  the field gives the token its promise resolves with, \<open>None\<close> if it does not resolve.
\<close>

record User =
  getIdToken :: "bool \<Rightarrow> string option"

text \<open>The calls the provider makes, in the order it makes them.\<close>

datatype login_call =
    FnCalled string
  | GetIdTokenCalled bool
  | SignOutWithGoogleCalled
  | SetTokenCalled string

text \<open>
  \<open>user\<close> and \<open>token\<close> are the values of the render that built \<^verbatim>\<open>withTokenRefresh\<close>;
  \<open>pending\<close> holds the \<^verbatim>\<open>then\<close> callbacks of the refresh promises that resolved, each
  with the token it will receive.
\<close>

record login =
  user :: "User option"
  token :: "string option"
  calls :: "login_call list"
  pending :: "string list"

text \<open>
  \<^verbatim>\<open>type ApiCall = (idToken: string) => void\<close>.  The callback acts on the state of its
  own provider (\<open>'st\<close>) and either returns or throws synchronously.
\<close>

datatype 'e outcome = Returned | Threw 'e

type_synonym ('st, 'e) ApiCall = "string \<Rightarrow> 'st \<Rightarrow> 'e outcome \<times> 'st"

definition called :: "login_call \<Rightarrow> login \<Rightarrow> login" where
  "called c lg = lg\<lparr>calls := calls lg @ [c]\<rparr>"

text \<open>
  \<^verbatim>\<open>user?.getIdToken(true).then((idToken) => { setToken(idToken); currentToken = idToken })\<close>:
  the request is issued now, the callback is queued.
\<close>

definition requestFreshToken :: "User \<Rightarrow> login \<Rightarrow> login" where
  "requestFreshToken u lg =
     (case getIdToken u True of
        None \<Rightarrow> called (GetIdTokenCalled True) lg
      | Some idToken \<Rightarrow>
          (called (GetIdTokenCalled True) lg)\<lparr>pending := pending lg @ [idToken]\<rparr>)"

text \<open>
  The \<^verbatim>\<open>while (retryAttempt < 2)\<close> loop.  \<open>currentToken\<close> is a parameter that no iteration
  changes: the only assignment to it is inside the queued callback, which runs after the
  loop has returned.
\<close>

function withTokenRefresh_loop ::
  "('st, 'e) ApiCall \<Rightarrow> User \<Rightarrow> string \<Rightarrow> nat \<Rightarrow> login \<times> 'st \<Rightarrow> login \<times> 'st" where
  "withTokenRefresh_loop fn u currentToken retryAttempt (lg, st) =
     (if retryAttempt < 2 then
        (case fn currentToken st of
           (Returned, st') \<Rightarrow> (called (FnCalled currentToken) lg, st')
         | (Threw e, st') \<Rightarrow>
             (if retryAttempt + 1 < 2
              then withTokenRefresh_loop fn u currentToken (retryAttempt + 1)
                     (requestFreshToken u (called (FnCalled currentToken) lg), st')
              else withTokenRefresh_loop fn u currentToken (retryAttempt + 1)
                     (called SignOutWithGoogleCalled (called (FnCalled currentToken) lg), st')))
      else (lg, st))"
  by pat_completeness auto
termination
  by (relation "measure (\<lambda>(fn, u, currentToken, retryAttempt, ctx). 2 - retryAttempt)") auto

declare withTokenRefresh_loop.simps [simp del]

text \<open>\<^verbatim>\<open>if (!user || !token) return\<close>: a token that is \<^verbatim>\<open>null\<close> or the empty string is falsy.\<close>

definition withTokenRefresh :: "('st, 'e) ApiCall \<Rightarrow> login \<times> 'st \<Rightarrow> login \<times> 'st" where
  "withTokenRefresh fn ctx =
     (case user (fst ctx) of
        None \<Rightarrow> ctx
      | Some u \<Rightarrow>
          (case token (fst ctx) of
             None \<Rightarrow> ctx
           | Some t \<Rightarrow> if t = [] then ctx else withTokenRefresh_loop fn u t 0 ctx))"

text \<open>The queued refresh callbacks, run in order once the synchronous code is done.\<close>

definition setToken :: "string \<Rightarrow> login \<Rightarrow> login" where
  "setToken idToken lg = (called (SetTokenCalled idToken) lg)\<lparr>token := Some idToken\<rparr>"

definition run_login_microtasks :: "login \<Rightarrow> login" where
  "run_login_microtasks lg = foldl (\<lambda>l idToken. setToken idToken l) (lg\<lparr>pending := []\<rparr>) (pending lg)"

section \<open>The resource store: \<^verbatim>\<open>GamesProvider\<close>\<close>

subsection \<open>State\<close>

text \<open>The arguments of \<^verbatim>\<open>setFlashProps\<close> and \<^verbatim>\<open>setModalProps\<close> (the page context).\<close>

datatype flash_type = FlashSuccess | FlashError

record flashProps =
  flash_hidden :: bool
  flash_type :: flash_type
  flash_header :: "string option"
  flash_message :: err_message

record modalProps =
  modal_hidden :: bool

text \<open>
  \<^verbatim>\<open>onSuccess\<close> and \<^verbatim>\<open>onError\<close> are optional callbacks of the caller: an operation is given
  whether each one is defined, and the store records each invocation.
\<close>

datatype callback = OnSuccessCalled | OnErrorCalled

text \<open>The API client of \<^verbatim>\<open>utils/api/simApi\<close>, as the answers its four calls give.\<close>

record simApi =
  postGames :: "game \<Rightarrow> string \<Rightarrow> game response settled"
  getGames :: "string \<Rightarrow> games_json response settled"
  patchGame :: "int \<Rightarrow> game \<Rightarrow> string \<Rightarrow> game response settled"
  deleteGame :: "int \<Rightarrow> string \<Rightarrow> unit response settled"

datatype api_request =
    PostGames game string
  | GetGames string
  | PatchGame int game string
  | DeleteGame int string

text \<open>
  A promise chain \<^verbatim>\<open>call.then(...).catch(...)\<close> waiting for its settlement, with what its
  closures captured: the \<^verbatim>\<open>games\<close> array of the render that built the operation, the id,
  and whether \<^verbatim>\<open>onSuccess\<close> and \<^verbatim>\<open>onError\<close> are defined.  The array is kept by value.
  In the source every pending closure holds the same array object, and \<^verbatim>\<open>updateGame\<close>
  writes into it; the value and the object agree as long as no other chain is waiting when
  an operation starts, which is what the properties of \<^verbatim>\<open>createGame\<close>, \<^verbatim>\<open>updateGame\<close> and
  \<^verbatim>\<open>destroyGame\<close> below assume.
\<close>

datatype chain =
    PostGamesChain "game list" bool bool "game response settled"
  | GetGamesChain "games_json response settled"
  | PatchGameChain "game list" int bool bool "game response settled"
  | DeleteGameChain "game list" int bool bool "unit response settled"

text \<open>
  \<open>flashes\<close>, \<open>modals\<close>, \<open>callbacks\<close> and \<open>requests\<close> list the calls of \<^verbatim>\<open>setFlashProps\<close>,
  \<^verbatim>\<open>setModalProps\<close>, the caller's callbacks and the API client, oldest first;
  \<open>unhandled\<close> lists the errors rethrown by a \<^verbatim>\<open>catch\<close> callback, which reject the
  chain's last promise with no handler left.
\<close>

record store =
  games :: "game list"
  gamesLoadingState :: LoadingState
  flashes :: "flashProps list"
  modals :: "modalProps list"
  callbacks :: "callback list"
  requests :: "api_request list"
  chains :: "chain list"
  unhandled :: "ApiError list"

definition setGames :: "game list \<Rightarrow> store \<Rightarrow> store" where
  "setGames gs st = st\<lparr>games := gs\<rparr>"

definition setGamesLoadingState :: "LoadingState \<Rightarrow> store \<Rightarrow> store" where
  "setGamesLoadingState l st = st\<lparr>gamesLoadingState := l\<rparr>"

definition setFlashProps :: "flashProps \<Rightarrow> store \<Rightarrow> store" where
  "setFlashProps p st = st\<lparr>flashes := flashes st @ [p]\<rparr>"

definition setModalProps :: "modalProps \<Rightarrow> store \<Rightarrow> store" where
  "setModalProps p st = st\<lparr>modals := modals st @ [p]\<rparr>"

text \<open>\<^verbatim>\<open>cb && cb()\<close>\<close>

definition invoke :: "bool \<Rightarrow> callback \<Rightarrow> store \<Rightarrow> store" where
  "invoke defined c st = (if defined then st\<lparr>callbacks := callbacks st @ [c]\<rparr> else st)"

subsection \<open>Error classification: \<^verbatim>\<open>handleApiError\<close>\<close>

definition NOT_FOUND_MESSAGE :: string where
  "NOT_FOUND_MESSAGE =
     ''Oops! We couldn'' @ [CHR 0x27] @ ''t find the game you'' @ [CHR 0x27] @
     ''re looking for. Please refresh and try again.''"

definition UNEXPECTED_ERROR_MESSAGE :: string where
  "UNEXPECTED_ERROR_MESSAGE =
     ''Oops! Something unexpected went wrong. We'' @ [CHR 0x27] @
     ''re sorry! Please try again later.''"

text \<open>The decimal numeral that a template literal prints for an array length.\<close>

definition digit :: "nat \<Rightarrow> char" where
  "digit d = ''0123456789'' ! d"

fun string_of_nat :: "nat \<Rightarrow> string" where
  "string_of_nat n =
     (if n < 10 then [digit n] else string_of_nat (n div 10) @ [digit (n mod 10)])"

declare string_of_nat.simps [simp del]

text \<open>The \<^verbatim>\<open>console.error\<close> of development builds has no effect on the state and is left out.\<close>

definition handleApiError :: "ApiError \<Rightarrow> store \<Rightarrow> store" where
  "handleApiError e st =
     (case message e of
        Messages ms \<Rightarrow>
          setFlashProps
            \<lparr>flash_hidden = False, flash_type = FlashError,
             flash_header =
               Some (string_of_nat (length ms) @ '' error(s) prevented your game from being saved:''),
             flash_message = Messages ms\<rparr> st
      | Message s \<Rightarrow>
          setFlashProps
            \<lparr>flash_hidden = False, flash_type = FlashError, flash_header = None,
             flash_message =
               Message (if code e = 404 then NOT_FOUND_MESSAGE else UNEXPECTED_ERROR_MESSAGE)\<rparr> st)"

subsection \<open>The callbacks of the four promise chains\<close>

text \<open>\<^verbatim>\<open>createGame\<close>: \<^verbatim>\<open>if ('name' in json) { setGames([json, ...games]); ... }\<close>\<close>

definition createGame_then :: "game list \<Rightarrow> bool \<Rightarrow> game response \<Rightarrow> store \<Rightarrow> store" where
  "createGame_then games0 onSuccess r st =
     (if json r ''name'' \<noteq> None then
        invoke onSuccess OnSuccessCalled
          (setFlashProps
             \<lparr>flash_hidden = False, flash_type = FlashSuccess, flash_header = None,
              flash_message = Message ''Success! Your game has been created.''\<rparr>
             (setGames (json r # games0) st))
      else st)"

text \<open>
  The \<^verbatim>\<open>catch\<close> callback shared by \<^verbatim>\<open>createGame\<close>, \<^verbatim>\<open>updateGame\<close> and \<^verbatim>\<open>destroyGame\<close>:
  \<^verbatim>\<open>if (e.code === 401) throw e; handleApiError(e); onError && onError()\<close>.
  \<open>Inl e\<close> is the rethrown error.
\<close>

definition mutation_catch :: "bool \<Rightarrow> ApiError \<Rightarrow> store \<Rightarrow> ApiError + store" where
  "mutation_catch onError e st =
     (if code e = 401 then Inl e
      else Inr (invoke onError OnErrorCalled (handleApiError e st)))"

text \<open>\<^verbatim>\<open>fetchGames\<close>\<close>

definition fetchGames_then :: "games_json response \<Rightarrow> store \<Rightarrow> store" where
  "fetchGames_then r st =
     (case json r of
        JArray gs \<Rightarrow> setGamesLoadingState DONE (setGames gs st)
      | JObject _ \<Rightarrow> st)"

definition fetchGames_catch :: "ApiError \<Rightarrow> store \<Rightarrow> ApiError + store" where
  "fetchGames_catch e st =
     (if code e = 401 then Inl e
      else Inr (setGamesLoadingState ERROR (setGames [] (handleApiError e st))))"

text \<open>
  \<^verbatim>\<open>Array.prototype.findIndex\<close>: the index of the first element that satisfies the
  predicate, \<open>-1\<close> when there is none.
\<close>

fun findIndex_from :: "('a \<Rightarrow> bool) \<Rightarrow> 'a list \<Rightarrow> int \<Rightarrow> int" where
  "findIndex_from p [] k = - 1"
| "findIndex_from p (x # xs) k = (if p x then k else findIndex_from p xs (k + 1))"

definition findIndex :: "('a \<Rightarrow> bool) \<Rightarrow> 'a list \<Rightarrow> int" where
  "findIndex p xs = findIndex_from p xs 0"

text \<open>\<^verbatim>\<open>el.id === gameId\<close>\<close>

definition has_id :: "int \<Rightarrow> game \<Rightarrow> bool" where
  "has_id gameId el = (el ''id'' = Some (JNum gameId))"

text \<open>
  \<^verbatim>\<open>updateGame\<close>: \<^verbatim>\<open>newGames\<close> is the captured array itself, not a copy, so
  \<^verbatim>\<open>newGames[index] = json\<close> writes into the array the provider holds and \<^verbatim>\<open>setGames\<close> is
  given that same array; the collection is then the captured array with the one entry
  replaced.  With index \<open>-1\<close> the assignment creates the property \<^verbatim>\<open>"-1"\<close> and no
  element changes.
\<close>

definition updateGame_then ::
  "game list \<Rightarrow> int \<Rightarrow> bool \<Rightarrow> game response \<Rightarrow> store \<Rightarrow> store" where
  "updateGame_then games0 gameId onSuccess r st =
     (if status r = 200 then
        (let index = findIndex (has_id gameId) games0;
             newGames = (if index < 0 then games0 else games0[nat index := json r])
         in invoke onSuccess OnSuccessCalled
              (setFlashProps
                 \<lparr>flash_hidden = False, flash_type = FlashSuccess, flash_header = None,
                  flash_message = Message ''Success! Your game has been updated.''\<rparr>
                 (setModalProps \<lparr>modal_hidden = True\<rparr> (setGames newGames st))))
      else st)"

text \<open>\<^verbatim>\<open>destroyGame\<close>: \<^verbatim>\<open>games.filter(({ id }) => id !== gameId)\<close>\<close>

definition destroyGame_then ::
  "game list \<Rightarrow> int \<Rightarrow> bool \<Rightarrow> unit response \<Rightarrow> store \<Rightarrow> store" where
  "destroyGame_then games0 gameId onSuccess r st =
     (if status r = 204 then
        invoke onSuccess OnSuccessCalled
          (setFlashProps
             \<lparr>flash_hidden = False, flash_type = FlashSuccess, flash_header = None,
              flash_message = Message ''Success! Your game has been deleted.''\<rparr>
             (setGames (filter (\<lambda>el. \<not> has_id gameId el) games0) st))
      else st)"

text \<open>
  Settling a chain: a resolved promise runs the \<^verbatim>\<open>then\<close> callback, a rejected one the
  \<^verbatim>\<open>catch\<close> callback; an error the \<^verbatim>\<open>catch\<close> callback rethrows reaches no handler.
\<close>

definition rethrown :: "store \<Rightarrow> ApiError + store \<Rightarrow> store" where
  "rethrown st res =
     (case res of Inl e \<Rightarrow> st\<lparr>unhandled := unhandled st @ [e]\<rparr> | Inr st' \<Rightarrow> st')"

fun settle :: "chain \<Rightarrow> store \<Rightarrow> store" where
  "settle (PostGamesChain games0 onSuccess onError (Resolves r)) st =
     createGame_then games0 onSuccess r st"
| "settle (PostGamesChain games0 onSuccess onError (Rejects e)) st =
     rethrown st (mutation_catch onError e st)"
| "settle (GetGamesChain (Resolves r)) st = fetchGames_then r st"
| "settle (GetGamesChain (Rejects e)) st = rethrown st (fetchGames_catch e st)"
| "settle (PatchGameChain games0 gameId onSuccess onError (Resolves r)) st =
     updateGame_then games0 gameId onSuccess r st"
| "settle (PatchGameChain games0 gameId onSuccess onError (Rejects e)) st =
     rethrown st (mutation_catch onError e st)"
| "settle (DeleteGameChain games0 gameId onSuccess onError (Resolves r)) st =
     destroyGame_then games0 gameId onSuccess r st"
| "settle (DeleteGameChain games0 gameId onSuccess onError (Rejects e)) st =
     rethrown st (mutation_catch onError e st)"

definition run_store_microtasks :: "store \<Rightarrow> store" where
  "run_store_microtasks st = foldl (\<lambda>s c. settle c s) (st\<lparr>chains := []\<rparr>) (chains st)"

definition run_microtasks :: "login \<times> store \<Rightarrow> login \<times> store" where
  "run_microtasks ctx = (run_login_microtasks (fst ctx), run_store_microtasks (snd ctx))"

subsection \<open>The four operations\<close>

text \<open>
  The function each operation hands to \<^verbatim>\<open>withTokenRefresh\<close> calls the API client with the
  token, attaches the two callbacks and returns.
\<close>

definition start :: "api_request \<Rightarrow> chain \<Rightarrow> store \<Rightarrow> store" where
  "start rq c st = st\<lparr>requests := requests st @ [rq], chains := chains st @ [c]\<rparr>"

definition createGame_fn ::
  "simApi \<Rightarrow> game list \<Rightarrow> game \<Rightarrow> bool \<Rightarrow> bool \<Rightarrow> (store, ApiError) ApiCall" where
  "createGame_fn api games0 body onSuccess onError idToken st =
     (Returned,
      start (PostGames body idToken)
        (PostGamesChain games0 onSuccess onError (postGames api body idToken)) st)"

definition fetchGames_fn :: "simApi \<Rightarrow> (store, ApiError) ApiCall" where
  "fetchGames_fn api idToken st =
     (Returned,
      start (GetGames idToken) (GetGamesChain (getGames api idToken))
        (setGamesLoadingState LOADING st))"

definition updateGame_fn ::
  "simApi \<Rightarrow> game list \<Rightarrow> int \<Rightarrow> game \<Rightarrow> bool \<Rightarrow> bool \<Rightarrow> (store, ApiError) ApiCall" where
  "updateGame_fn api games0 gameId attributes onSuccess onError idToken st =
     (Returned,
      start (PatchGame gameId attributes idToken)
        (PatchGameChain games0 gameId onSuccess onError (patchGame api gameId attributes idToken))
        st)"

definition destroyGame_fn ::
  "simApi \<Rightarrow> game list \<Rightarrow> int \<Rightarrow> bool \<Rightarrow> bool \<Rightarrow> (store, ApiError) ApiCall" where
  "destroyGame_fn api games0 gameId onSuccess onError idToken st =
     (Returned,
      start (DeleteGame gameId idToken)
        (DeleteGameChain games0 gameId onSuccess onError (deleteGame api gameId idToken)) st)"

text \<open>
  An operation called on the context \<open>(login, store)\<close>: the synchronous call, then the
  queued callbacks.  The \<^verbatim>\<open>games\<close> array that the closures capture is the one of the
  store at the call.
\<close>

definition createGame ::
  "simApi \<Rightarrow> game \<Rightarrow> bool \<Rightarrow> bool \<Rightarrow> login \<times> store \<Rightarrow> login \<times> store" where
  "createGame api body onSuccess onError ctx =
     run_microtasks
       (withTokenRefresh (createGame_fn api (games (snd ctx)) body onSuccess onError) ctx)"

definition fetchGames :: "simApi \<Rightarrow> login \<times> store \<Rightarrow> login \<times> store" where
  "fetchGames api ctx = run_microtasks (withTokenRefresh (fetchGames_fn api) ctx)"

definition updateGame ::
  "simApi \<Rightarrow> int \<Rightarrow> game \<Rightarrow> bool \<Rightarrow> bool \<Rightarrow> login \<times> store \<Rightarrow> login \<times> store" where
  "updateGame api gameId attributes onSuccess onError ctx =
     run_microtasks
       (withTokenRefresh
          (updateGame_fn api (games (snd ctx)) gameId attributes onSuccess onError) ctx)"

definition destroyGame ::
  "simApi \<Rightarrow> int \<Rightarrow> bool \<Rightarrow> bool \<Rightarrow> login \<times> store \<Rightarrow> login \<times> store" where
  "destroyGame api gameId onSuccess onError ctx =
     run_microtasks
       (withTokenRefresh (destroyGame_fn api (games (snd ctx)) gameId onSuccess onError) ctx)"

subsection \<open>Sequences of operations\<close>

text \<open>
  Operations issued one after the other, each with the answers the server gives at that
  moment; every operation is finished (its promise settled, the provider rendered again)
  before the next one starts.
\<close>

datatype operation =
    Load
  | Create game bool bool
  | Update int game bool bool
  | Destroy int bool bool

fun perform :: "simApi \<Rightarrow> operation \<Rightarrow> login \<times> store \<Rightarrow> login \<times> store" where
  "perform api Load ctx = fetchGames api ctx"
| "perform api (Create body onSuccess onError) ctx = createGame api body onSuccess onError ctx"
| "perform api (Update gameId attributes onSuccess onError) ctx =
     updateGame api gameId attributes onSuccess onError ctx"
| "perform api (Destroy gameId onSuccess onError) ctx =
     destroyGame api gameId onSuccess onError ctx"

text \<open>The contexts reached after each operation of the sequence.\<close>

fun run :: "(simApi \<times> operation) list \<Rightarrow> login \<times> store \<Rightarrow> (login \<times> store) list" where
  "run [] ctx = []"
| "run ((api, opn) # rest) ctx = perform api opn ctx # run rest (perform api opn ctx)"

text \<open>At most one entry per value of \<^verbatim>\<open>el.id\<close>.\<close>

definition distinct_ids :: "game list \<Rightarrow> bool" where
  "distinct_ids gs = distinct (map (\<lambda>el. el ''id'') gs)"

text \<open>
  What is assumed of the server: to the request made with token \<open>t\<close> while the collection
  is \<open>gs\<close>, a list answer has distinct ids, a create answer has an id that \<open>gs\<close> does not
  have, and an update answer has the requested id.
\<close>

fun answer_ok :: "simApi \<Rightarrow> operation \<Rightarrow> string \<Rightarrow> game list \<Rightarrow> bool" where
  "answer_ok api Load t gs =
     (case getGames api t of
        Resolves r \<Rightarrow> (case json r of JArray xs \<Rightarrow> distinct_ids xs | JObject _ \<Rightarrow> True)
      | Rejects _ \<Rightarrow> True)"
| "answer_ok api (Create body onSuccess onError) t gs =
     (case postGames api body t of
        Resolves r \<Rightarrow> json r ''id'' \<notin> set (map (\<lambda>el. el ''id'') gs)
      | Rejects _ \<Rightarrow> True)"
| "answer_ok api (Update gameId attributes onSuccess onError) t gs =
     (case patchGame api gameId attributes t of
        Resolves r \<Rightarrow> has_id gameId (json r)
      | Rejects _ \<Rightarrow> True)"
| "answer_ok api (Destroy gameId onSuccess onError) t gs = True"

fun answers_ok :: "(simApi \<times> operation) list \<Rightarrow> login \<times> store \<Rightarrow> bool" where
  "answers_ok [] ctx = True"
| "answers_ok ((api, opn) # rest) ctx =
     ((case token (fst ctx) of
         None \<Rightarrow> True
       | Some t \<Rightarrow> answer_ok api opn t (games (snd ctx))) \<and>
      answers_ok rest (perform api opn ctx))"

subsection \<open>Inputs of the worked scenarios\<close>

text \<open>A signed-in session whose token is stale and whose user can obtain a fresh one.\<close>

definition signed_in :: login where
  "signed_in =
     \<lparr>user = Some \<lparr>getIdToken = \<lambda>forceRefresh. Some ''fresh''\<rparr>, token = Some ''stale'',
      calls = [], pending = []\<rparr>"

definition unauthorized :: ApiError where
  "unauthorized = \<lparr>code = 401, message = Message ''Unauthorized''\<rparr>"

text \<open>The collection \<^verbatim>\<open>[{id:5},{id:7},{id:9}]\<close> and a store that holds a collection.\<close>

definition three_games :: "game list" where
  "three_games = [[''id'' \<mapsto> JNum 5], [''id'' \<mapsto> JNum 7], [''id'' \<mapsto> JNum 9]]"

definition store_of :: "game list \<Rightarrow> store" where
  "store_of gs =
     \<lparr>games = gs, gamesLoadingState = DONE, flashes = [], modals = [], callbacks = [],
      requests = [], chains = [], unhandled = []\<rparr>"

text \<open>An API client that gives the same four answers whatever it is asked.\<close>

definition answering ::
  "game response settled \<Rightarrow> games_json response settled \<Rightarrow> game response settled \<Rightarrow>
   unit response settled \<Rightarrow> simApi" where
  "answering p g u d =
     \<lparr>postGames = \<lambda>body idToken. p, getGames = \<lambda>idToken. g,
      patchGame = \<lambda>gameId attributes idToken. u, deleteGame = \<lambda>gameId idToken. d\<rparr>"


text \<open>
  A server that rejects the stale token with status 401 and accepts any other token,
  creating the game with id 1.
\<close>

definition expiring :: simApi where
  "expiring =
     \<lparr>postGames = \<lambda>body idToken.
        if idToken = ''stale'' then Rejects unauthorized
        else Resolves \<lparr>status = 201, json = body(''id'' \<mapsto> JNum 1)\<rparr>,
      getGames = \<lambda>idToken.
        if idToken = ''stale'' then Rejects unauthorized
        else Resolves \<lparr>status = 200, json = JArray []\<rparr>,
      patchGame = \<lambda>gameId attributes idToken.
        if idToken = ''stale'' then Rejects unauthorized
        else Resolves \<lparr>status = 200, json = attributes(''id'' \<mapsto> JNum gameId)\<rparr>,
      deleteGame = \<lambda>gameId idToken.
        if idToken = ''stale'' then Rejects unauthorized
        else Resolves \<lparr>status = 204, json = ()\<rparr>\<rparr>"

section \<open>Properties of the session manager\<close>

subsection \<open>The three paths through the retry loop\<close>

lemma loop_returned:
  "fn t st = (Returned, st') \<Longrightarrow>
   withTokenRefresh_loop fn u t 0 (lg, st) = (called (FnCalled t) lg, st')"
  by (simp add: withTokenRefresh_loop.simps)

lemma loop_threw_returned:
  "fn t st = (Threw e, st1) \<Longrightarrow> fn t st1 = (Returned, st2) \<Longrightarrow>
   withTokenRefresh_loop fn u t 0 (lg, st) =
     (called (FnCalled t) (requestFreshToken u (called (FnCalled t) lg)), st2)"
  by (simp add: withTokenRefresh_loop.simps)

lemma loop_threw_threw:
  "fn t st = (Threw e, st1) \<Longrightarrow> fn t st1 = (Threw e', st2) \<Longrightarrow>
   withTokenRefresh_loop fn u t 0 (lg, st) =
     (called SignOutWithGoogleCalled
        (called (FnCalled t) (requestFreshToken u (called (FnCalled t) lg))), st2)"
  by (simp add: withTokenRefresh_loop.simps)

lemma withTokenRefresh_session:
  "user lg = Some u \<Longrightarrow> token lg = Some t \<Longrightarrow> t \<noteq> [] \<Longrightarrow>
   withTokenRefresh fn (lg, st) = withTokenRefresh_loop fn u t 0 (lg, st)"
  by (simp add: withTokenRefresh_def)

lemma no_session:
  "user lg = None \<or> token lg = None \<or> token lg = Some [] \<Longrightarrow>
   withTokenRefresh fn (lg, st) = (lg, st)"
  by (auto simp: withTokenRefresh_def split: option.split)

lemma guarded_returned:
  "user lg = Some u \<Longrightarrow> token lg = Some t \<Longrightarrow> t \<noteq> [] \<Longrightarrow> fn t st = (Returned, st') \<Longrightarrow>
   withTokenRefresh fn (lg, st) = (called (FnCalled t) lg, st')"
  by (simp add: withTokenRefresh_session loop_returned)

lemma calls_called [simp]: "calls (called c lg) = calls lg @ [c]"
  by (simp add: called_def)

lemma calls_requestFreshToken [simp]:
  "calls (requestFreshToken u lg) = calls lg @ [GetIdTokenCalled True]"
  by (simp add: requestFreshToken_def called_def split: option.split)

lemma token_called [simp]: "token (called c lg) = token lg"
  by (simp add: called_def)

lemma token_requestFreshToken [simp]: "token (requestFreshToken u lg) = token lg"
  by (simp add: requestFreshToken_def called_def split: option.split)

text \<open>
  Whatever the callback does, a retry is made with the token of the first attempt, and the
  stored token is still that token when \<^const>\<open>withTokenRefresh\<close> returns.
\<close>

lemma retry_keeps_token:
  assumes "user lg = Some u" "token lg = Some t" "t \<noteq> []" "fst (fn t st) = Threw e"
  shows "take 3 (drop (length (calls lg)) (calls (fst (withTokenRefresh fn (lg, st))))) =
           [FnCalled t, GetIdTokenCalled True, FnCalled t]"
    and "token (fst (withTokenRefresh fn (lg, st))) = Some t"
proof -
  obtain st1 where 1: "fn t st = (Threw e, st1)"
    using assms(4) by (cases "fn t st") simp
  obtain o2 st2 where 2: "fn t st1 = (o2, st2)" by (cases "fn t st1")
  show "take 3 (drop (length (calls lg)) (calls (fst (withTokenRefresh fn (lg, st))))) =
           [FnCalled t, GetIdTokenCalled True, FnCalled t]"
    using 1 2 by (cases o2)
      (simp_all add: withTokenRefresh_session [OF assms(1-3)] loop_threw_returned loop_threw_threw)
  show "token (fst (withTokenRefresh fn (lg, st))) = Some t"
    using 1 2 assms(2) by (cases o2)
      (simp_all add: withTokenRefresh_session [OF assms(1-3)] loop_threw_returned loop_threw_threw)
qed

text \<open>
  A callback that throws at both invocations: the provider calls it twice with the same
  token, requests one token in between and signs out once.
\<close>

lemma two_throws_sign_out_once:
  assumes "user lg = Some u" "token lg = Some t" "t \<noteq> []"
    and "fst (fn t st) = Threw e1" and "fst (fn t (snd (fn t st))) = Threw e2"
  shows "calls (fst (withTokenRefresh fn (lg, st))) =
           calls lg @ [FnCalled t, GetIdTokenCalled True, FnCalled t, SignOutWithGoogleCalled]"
    and "snd (withTokenRefresh fn (lg, st)) = snd (fn t (snd (fn t st)))"
proof -
  have 1: "fn t st = (Threw e1, snd (fn t st))"
    using assms(4) by (cases "fn t st") simp
  have 2: "fn t (snd (fn t st)) = (Threw e2, snd (fn t (snd (fn t st))))"
    using assms(5) by (cases "fn t (snd (fn t st))") simp
  have w: "withTokenRefresh fn (lg, st) =
        (called SignOutWithGoogleCalled
           (called (FnCalled t) (requestFreshToken u (called (FnCalled t) lg))),
         snd (fn t (snd (fn t st))))"
    using loop_threw_threw [where fn = fn and t = t and st = st, OF 1 2]
    by (simp add: withTokenRefresh_session [OF assms(1-3)])
  show "calls (fst (withTokenRefresh fn (lg, st))) =
        calls lg @ [FnCalled t, GetIdTokenCalled True, FnCalled t, SignOutWithGoogleCalled]"
    by (simp add: w)
  show "snd (withTokenRefresh fn (lg, st)) = snd (fn t (snd (fn t st)))"
    by (simp add: w)
qed

text \<open>
  The four functions of the resource store never throw into the loop: they return once the
  request is sent, whatever the server will answer.
\<close>

lemma store_callbacks_return:
  "fst (createGame_fn api games0 body onSuccess onError idToken st) = Returned"
  "fst (fetchGames_fn api idToken st) = Returned"
  "fst (updateGame_fn api games0 gameId attributes onSuccess onError idToken st) = Returned"
  "fst (destroyGame_fn api games0 gameId onSuccess onError idToken st) = Returned"
  by (simp_all add: createGame_fn_def fetchGames_fn_def updateGame_fn_def destroyGame_fn_def)

section \<open>Properties of the resource store\<close>

subsection \<open>What an operation does to the store when a session is held\<close>

lemma run_store_start:
  "run_store_microtasks (start rq c st) =
   settle c (run_store_microtasks (st\<lparr>requests := requests st @ [rq]\<rparr>))"
  by (simp add: run_store_microtasks_def start_def)

lemma run_store_idle: "chains st = [] \<Longrightarrow> run_store_microtasks st = st"
  by (cases st) (simp add: run_store_microtasks_def)

lemma createGame_session:
  assumes "user lg = Some u" "token lg = Some t" "t \<noteq> []"
  shows "snd (createGame api body onSuccess onError (lg, st)) =
         settle (PostGamesChain (games st) onSuccess onError (postGames api body t))
           (run_store_microtasks (st\<lparr>requests := requests st @ [PostGames body t]\<rparr>))"
  using assms
  by (simp add: createGame_def run_microtasks_def run_store_start
        guarded_returned [where st' = "start (PostGames body t)
           (PostGamesChain (games st) onSuccess onError (postGames api body t)) st"]
        createGame_fn_def)

lemma fetchGames_session:
  assumes "user lg = Some u" "token lg = Some t" "t \<noteq> []"
  shows "snd (fetchGames api (lg, st)) =
         settle (GetGamesChain (getGames api t))
           (run_store_microtasks
              ((setGamesLoadingState LOADING st)\<lparr>requests := requests st @ [GetGames t]\<rparr>))"
  using assms
  by (simp add: fetchGames_def run_microtasks_def run_store_start
        guarded_returned [where st' = "start (GetGames t) (GetGamesChain (getGames api t))
           (setGamesLoadingState LOADING st)"]
        fetchGames_fn_def setGamesLoadingState_def)

lemma updateGame_session:
  assumes "user lg = Some u" "token lg = Some t" "t \<noteq> []"
  shows "snd (updateGame api gameId attributes onSuccess onError (lg, st)) =
         settle (PatchGameChain (games st) gameId onSuccess onError
                   (patchGame api gameId attributes t))
           (run_store_microtasks
              (st\<lparr>requests := requests st @ [PatchGame gameId attributes t]\<rparr>))"
  using assms
  by (simp add: updateGame_def run_microtasks_def run_store_start
        guarded_returned [where st' = "start (PatchGame gameId attributes t)
           (PatchGameChain (games st) gameId onSuccess onError
              (patchGame api gameId attributes t)) st"]
        updateGame_fn_def)

lemma destroyGame_session:
  assumes "user lg = Some u" "token lg = Some t" "t \<noteq> []"
  shows "snd (destroyGame api gameId onSuccess onError (lg, st)) =
         settle (DeleteGameChain (games st) gameId onSuccess onError (deleteGame api gameId t))
           (run_store_microtasks (st\<lparr>requests := requests st @ [DeleteGame gameId t]\<rparr>))"
  using assms
  by (simp add: destroyGame_def run_microtasks_def run_store_start
        guarded_returned [where st' = "start (DeleteGame gameId t)
           (DeleteGameChain (games st) gameId onSuccess onError (deleteGame api gameId t)) st"]
        destroyGame_fn_def)

lemma signed_in_session:
  "user signed_in = Some \<lparr>getIdToken = \<lambda>forceRefresh. Some ''fresh''\<rparr>"
  "token signed_in = Some ''stale''" "''stale'' \<noteq> []"
  by (simp_all add: signed_in_def)

subsection \<open>Fields that the setters leave alone\<close>

lemma games_setters [simp]:
  "games (setGames gs st) = gs"
  "games (setGamesLoadingState l st) = games st"
  "games (setFlashProps p st) = games st"
  "games (setModalProps m st) = games st"
  "games (invoke d c st) = games st"
  "games (handleApiError e st) = games st"
  by (simp_all add: setGames_def setGamesLoadingState_def setFlashProps_def setModalProps_def
        invoke_def handleApiError_def split: err_message.split)

lemma gamesLoadingState_setters [simp]:
  "gamesLoadingState (setGames gs st) = gamesLoadingState st"
  "gamesLoadingState (setGamesLoadingState l st) = l"
  "gamesLoadingState (setFlashProps p st) = gamesLoadingState st"
  "gamesLoadingState (setModalProps m st) = gamesLoadingState st"
  "gamesLoadingState (invoke d c st) = gamesLoadingState st"
  "gamesLoadingState (handleApiError e st) = gamesLoadingState st"
  by (simp_all add: setGames_def setGamesLoadingState_def setFlashProps_def setModalProps_def
        invoke_def handleApiError_def split: err_message.split)

lemma chains_setters [simp]:
  "chains (setGames gs st) = chains st"
  "chains (setGamesLoadingState l st) = chains st"
  "chains (setFlashProps p st) = chains st"
  "chains (setModalProps m st) = chains st"
  "chains (invoke d c st) = chains st"
  "chains (handleApiError e st) = chains st"
  by (simp_all add: setGames_def setGamesLoadingState_def setFlashProps_def setModalProps_def
        invoke_def handleApiError_def split: err_message.split)

lemma chains_settle [simp]: "chains (settle c st) = chains st"
  by (cases "(c, st)" rule: settle.cases)
     (simp_all add: createGame_then_def updateGame_then_def destroyGame_then_def
        fetchGames_then_def fetchGames_catch_def mutation_catch_def rethrown_def Let_def
        split: games_json.split)

subsection \<open>\<^verbatim>\<open>findIndex\<close>\<close>

lemma findIndex_from_none:
  "\<forall>x\<in>set xs. \<not> p x \<Longrightarrow> findIndex_from p xs k = - 1"
  by (induction xs arbitrary: k) simp_all

lemma findIndex_from_first:
  "\<exists>x\<in>set xs. p x \<Longrightarrow>
   \<exists>i<length xs. findIndex_from p xs k = k + int i \<and> p (xs ! i) \<and> (\<forall>j<i. \<not> p (xs ! j))"
proof (induction xs arbitrary: k)
  case Nil
  then show ?case by simp
next
  case (Cons x xs)
  show ?case
  proof (cases "p x")
    case True
    then show ?thesis by (intro exI [of _ 0]) simp
  next
    case False
    with Cons.prems have "\<exists>y\<in>set xs. p y" by simp
    from Cons.IH [OF this, of "k + 1"] obtain i where i: "i < length xs"
      "findIndex_from p xs (k + 1) = k + 1 + int i" "p (xs ! i)" "\<forall>j<i. \<not> p (xs ! j)"
      by blast
    show ?thesis
    proof (intro exI [of _ "Suc i"] conjI)
      show "\<forall>j<Suc i. \<not> p ((x # xs) ! j)"
        using False i(4) by (auto simp: nth_Cons split: nat.split)
    qed (use False i in simp_all)
  qed
qed

lemma findIndex_first:
  "\<exists>x\<in>set xs. p x \<Longrightarrow>
   \<exists>i<length xs. findIndex p xs = int i \<and> p (xs ! i) \<and> (\<forall>j<i. \<not> p (xs ! j))"
  using findIndex_from_first [of xs p 0] by (simp add: findIndex_def)

lemma findIndex_none: "\<forall>x\<in>set xs. \<not> p x \<Longrightarrow> findIndex p xs = - 1"
  by (simp add: findIndex_def findIndex_from_none)

subsection \<open>Removing the only entry that satisfies a predicate\<close>

lemma filter_one_split:
  "length (filter p xs) = 1 \<Longrightarrow>
   \<exists>pre x post. xs = pre @ x # post \<and> p x \<and> filter (\<lambda>y. \<not> p y) xs = pre @ post"
proof (induction xs)
  case Nil
  then show ?case by simp
next
  case (Cons a xs)
  show ?case
  proof (cases "p a")
    case True
    with Cons.prems have "filter p xs = []" by simp
    then have "filter (\<lambda>y. \<not> p y) xs = xs"
      by (simp add: filter_empty_conv)
    with True show ?thesis by (intro exI [of _ "[]"] exI [of _ a] exI [of _ xs]) simp
  next
    case False
    with Cons.prems have "length (filter p xs) = 1" by simp
    from Cons.IH [OF this] obtain pre x post where
      "xs = pre @ x # post" "p x" "filter (\<lambda>y. \<not> p y) xs = pre @ post" by blast
    with False show ?thesis
      by (intro exI [of _ "a # pre"] exI [of _ x] exI [of _ post]) simp
  qed
qed

subsection \<open>Distinct ids are kept by every operation\<close>

lemma perform_no_session:
  assumes "user lg = None \<or> token lg = None \<or> token lg = Some []" and "chains st = []"
  shows "snd (perform api opn (lg, st)) = st"
  using assms
  by (cases opn)
     (simp_all add: fetchGames_def createGame_def updateGame_def destroyGame_def
        no_session run_microtasks_def run_store_idle)

lemma distinct_ids_update:
  assumes "distinct_ids gs" "i < length gs" "has_id gameId (gs ! i)" "has_id gameId g"
  shows "distinct_ids (gs[i := g])"
proof -
  have "map (\<lambda>el. el ''id'') (gs[i := g]) = (map (\<lambda>el. el ''id'') gs)[i := (gs ! i) ''id'']"
    using assms(3,4) by (simp add: map_update has_id_def)
  also have "\<dots> = map (\<lambda>el. el ''id'') gs"
    using assms(2) by (metis list_update_id nth_map)
  finally show ?thesis using assms(1) by (simp add: distinct_ids_def)
qed

lemma distinct_ids_updateGame_then:
  assumes "distinct_ids gs" and "has_id gameId (json r)" and "games st = gs"
  shows "distinct_ids (games (updateGame_then gs gameId onSuccess r st))"
proof (cases "status r = 200")
  case False
  with assms(1,3) show ?thesis by (simp add: updateGame_then_def)
next
  case True
  show ?thesis
  proof (cases "\<exists>el\<in>set gs. has_id gameId el")
    case True
    from findIndex_first [OF this] obtain i where i: "i < length gs"
      "findIndex (has_id gameId) gs = int i" "has_id gameId (gs ! i)" by blast
    with \<open>status r = 200\<close> distinct_ids_update [OF assms(1) i(1) i(3) assms(2)]
    show ?thesis by (simp add: updateGame_then_def)
  next
    case False
    then have "findIndex (has_id gameId) gs = - 1" by (simp add: findIndex_none)
    with \<open>status r = 200\<close> assms(1) show ?thesis by (simp add: updateGame_then_def)
  qed
qed

lemma distinct_ids_filter: "distinct_ids gs \<Longrightarrow> distinct_ids (filter p gs)"
  by (simp add: distinct_ids_def distinct_map_filter)

lemma perform_stays_idle:
  assumes "chains st = []"
  shows "chains (snd (perform api opn (lg, st))) = []"
proof (cases "user lg = None \<or> token lg = None \<or> token lg = Some []")
  case True
  from perform_no_session [OF this assms] assms show ?thesis by simp
next
  case False
  then obtain u t where s: "user lg = Some u" "token lg = Some t" "t \<noteq> []" by auto
  from assms show ?thesis
    by (cases opn)
       (simp_all add: fetchGames_session [OF s] createGame_session [OF s]
          updateGame_session [OF s] destroyGame_session [OF s] run_store_idle
          del: settle.simps)
qed

lemma perform_keeps_distinct:
  assumes d: "distinct_ids (games st)" and idle: "chains st = []"
    and ok: "case token lg of None \<Rightarrow> True | Some t \<Rightarrow> answer_ok api opn t (games st)"
  shows "distinct_ids (games (snd (perform api opn (lg, st))))"
proof (cases "user lg = None \<or> token lg = None \<or> token lg = Some []")
  case True
  from perform_no_session [OF this idle] d show ?thesis by simp
next
  case False
  then obtain u t where s: "user lg = Some u" "token lg = Some t" "t \<noteq> []" by auto
  from ok s have a: "answer_ok api opn t (games st)" by simp
  show ?thesis
  proof (cases opn)
    case Load
    with a d idle show ?thesis
      by (cases "getGames api t")
         (auto simp: fetchGames_session [OF s] run_store_idle setGamesLoadingState_def
            fetchGames_then_def fetchGames_catch_def rethrown_def distinct_ids_def
            split: games_json.splits)
  next
    case (Create body onSuccess onError)
    with a d idle show ?thesis
      by (cases "postGames api body t")
         (auto simp: createGame_session [OF s] run_store_idle createGame_then_def
            mutation_catch_def rethrown_def distinct_ids_def)
  next
    case (Update gameId attributes onSuccess onError)
    show ?thesis
    proof (cases "patchGame api gameId attributes t")
      case (Resolves r)
      with a Update have "has_id gameId (json r)" by simp
      from distinct_ids_updateGame_then [OF d this] Resolves Update idle show ?thesis
        by (simp add: updateGame_session [OF s] run_store_idle)
    next
      case (Rejects e)
      with Update d idle show ?thesis
        by (auto simp: updateGame_session [OF s] run_store_idle mutation_catch_def rethrown_def)
    qed
  next
    case (Destroy gameId onSuccess onError)
    with d idle distinct_ids_filter [OF d] show ?thesis
      by (cases "deleteGame api gameId t")
         (auto simp: destroyGame_session [OF s] run_store_idle destroyGame_then_def
            mutation_catch_def rethrown_def)
  qed
qed

section \<open>The claims\<close>

text \<open>
  Claim C1 says that when the first invocation of a guarded operation signals status 401,
  one fresh token is requested, the stored token is replaced, and the operation is invoked
  once more with the new token.  The theorem runs the code on a signed-in session with the
  stale token.  An operation that throws the 401 error while it is given the stale token
  is invoked a second time with the same stale token, throws again, and the user is signed
  out; the stored token is still the stale one when \<^const>\<open>withTokenRefresh\<close> returns
  and becomes the fresh one only when the queued callback runs.
  \<^const>\<open>createGame\<close> against a server that rejects the stale token with 401 and would
  accept the fresh one is invoked once only: the error is rethrown inside the \<^verbatim>\<open>catch\<close>
  callback, outside the \<^verbatim>\<open>try\<close> block, so no fresh token is requested, nothing is retried,
  and the collection is unchanged.
\<close>

theorem withTokenRefresh_retries_with_stale_token:
  "calls (fst (withTokenRefresh
            (\<lambda>idToken st. (if idToken = ''stale'' then Threw unauthorized else Returned, st))
            (signed_in, ()))) =
     [FnCalled ''stale'', GetIdTokenCalled True, FnCalled ''stale'', SignOutWithGoogleCalled] \<and>
   token (fst (withTokenRefresh
            (\<lambda>idToken st. (if idToken = ''stale'' then Threw unauthorized else Returned, st))
            (signed_in, ()))) = Some ''stale'' \<and>
   token (run_login_microtasks (fst (withTokenRefresh
            (\<lambda>idToken st. (if idToken = ''stale'' then Threw unauthorized else Returned, st))
            (signed_in, ())))) = Some ''fresh'' \<and>
   calls (fst (createGame expiring [''name'' \<mapsto> JStr ''X''] True True
                 (signed_in, store_of three_games))) =
     [FnCalled ''stale''] \<and>
   requests (snd (createGame expiring [''name'' \<mapsto> JStr ''X''] True True
                    (signed_in, store_of three_games))) =
     [PostGames [''name'' \<mapsto> JStr ''X''] ''stale''] \<and>
   unhandled (snd (createGame expiring [''name'' \<mapsto> JStr ''X''] True True
                     (signed_in, store_of three_games))) = [unauthorized] \<and>
   games (snd (createGame expiring [''name'' \<mapsto> JStr ''X''] True True
                 (signed_in, store_of three_games))) = three_games"
  by (simp add: withTokenRefresh_def withTokenRefresh_loop.simps signed_in_def
        requestFreshToken_def called_def createGame_def createGame_fn_def start_def
        run_microtasks_def run_store_microtasks_def run_login_microtasks_def setToken_def
        mutation_catch_def rethrown_def store_of_def expiring_def unauthorized_def)

text \<open>
  Claim C2: when \<^verbatim>\<open>withTokenRefresh\<close> is called while the user or the token is absent
  (an empty token counts as absent), the context is returned as it was: the log of calls
  has no new invocation of the operation, no token request and no sign-out, and the state
  of the calling provider, flash messages included, is untouched.
\<close>

theorem withTokenRefresh_without_session:
  "user (fst ctx) = None \<or> token (fst ctx) = None \<or> token (fst ctx) = Some [] \<Longrightarrow>
   withTokenRefresh fn ctx = ctx"
  by (auto simp: withTokenRefresh_def split: option.split)

theorem withTokenRefresh_without_session_witness:
  "token (fst (signed_in\<lparr>token := None\<rparr>, store_of three_games)) = None \<and>
   withTokenRefresh (createGame_fn expiring three_games Map.empty True True)
     (signed_in\<lparr>token := None\<rparr>, store_of three_games) =
   (signed_in\<lparr>token := None\<rparr>, store_of three_games)"
  using withTokenRefresh_without_session
    [of "(signed_in\<lparr>token := None\<rparr>, store_of three_games)"
        "createGame_fn expiring three_games Map.empty True True"]
  by simp


text \<open>
  Claim C4: take a context whose collection has pairwise distinct ids and no request in
  flight, and any sequence of load, create, update and destroy operations whose answers
  are as assumed of the server (\<^const>\<open>answers_ok\<close>: a list has distinct ids, a created
  game has an id the collection lacks, an updated game has the requested id).  Then the
  collection has pairwise distinct ids after every operation of the sequence.
\<close>

theorem operations_keep_ids_distinct:
  "distinct_ids (games (snd ctx)) \<Longrightarrow> chains (snd ctx) = [] \<Longrightarrow> answers_ok ops ctx \<Longrightarrow>
   \<forall>c\<in>set (run ops ctx). distinct_ids (games (snd c))"
proof (induction ops arbitrary: ctx)
  case Nil
  then show ?case by simp
next
  case (Cons a ops)
  obtain api opn where a: "a = (api, opn)" by (cases a)
  obtain lg st where ctx: "ctx = (lg, st)" by (cases ctx)
  from Cons.prems(3) a ctx
  have ok: "case token lg of None \<Rightarrow> True | Some t \<Rightarrow> answer_ok api opn t (games st)"
    by (auto split: option.splits)
  from Cons.prems(1,2) ctx have d: "distinct_ids (games st)" and idle: "chains st = []"
    by simp_all
  have d': "distinct_ids (games (snd (perform api opn ctx)))"
    using perform_keeps_distinct [OF d idle ok] ctx by simp
  moreover have "chains (snd (perform api opn ctx)) = []"
    using perform_stays_idle [OF idle] ctx by simp
  moreover from Cons.prems(3) a have "answers_ok ops (perform api opn ctx)" by simp
  ultimately have "\<forall>c\<in>set (run ops (perform api opn ctx)). distinct_ids (games (snd c))"
    using Cons.IH by blast
  with d' a show ?case by simp
qed

theorem operations_keep_ids_distinct_witness:
  "distinct_ids (games (snd (signed_in, store_of []))) \<and>
   chains (snd (signed_in, store_of [])) = [] \<and>
   answers_ok
     [(answering
         (Resolves \<lparr>status = 201, json = [''id'' \<mapsto> JNum 11, ''name'' \<mapsto> JStr ''X'']\<rparr>)
         (Resolves \<lparr>status = 200, json = JArray three_games\<rparr>)
         (Resolves \<lparr>status = 200, json = [''id'' \<mapsto> JNum 7, ''name'' \<mapsto> JStr ''X'']\<rparr>)
         (Resolves \<lparr>status = 204, json = ()\<rparr>), opn).
      opn \<leftarrow> [Load, Create [''name'' \<mapsto> JStr ''X''] True True,
              Update 7 [''name'' \<mapsto> JStr ''X''] True True, Destroy 5 True True]]
     (signed_in, store_of []) \<and>
   map (\<lambda>c. distinct_ids (games (snd c)))
     (run
        [(answering
            (Resolves \<lparr>status = 201, json = [''id'' \<mapsto> JNum 11, ''name'' \<mapsto> JStr ''X'']\<rparr>)
            (Resolves \<lparr>status = 200, json = JArray three_games\<rparr>)
            (Resolves \<lparr>status = 200, json = [''id'' \<mapsto> JNum 7, ''name'' \<mapsto> JStr ''X'']\<rparr>)
            (Resolves \<lparr>status = 204, json = ()\<rparr>), opn).
         opn \<leftarrow> [Load, Create [''name'' \<mapsto> JStr ''X''] True True,
                 Update 7 [''name'' \<mapsto> JStr ''X''] True True, Destroy 5 True True]]
        (signed_in, store_of [])) =
   [True, True, True, True]"
proof -
  have d: "distinct_ids (games (snd (signed_in, store_of [])))"
    by (simp add: distinct_ids_def store_of_def)
  have i: "chains (snd (signed_in, store_of [])) = []"
    by (simp add: store_of_def)
  have a: "answers_ok
     [(answering
         (Resolves \<lparr>status = 201, json = [''id'' \<mapsto> JNum 11, ''name'' \<mapsto> JStr ''X'']\<rparr>)
         (Resolves \<lparr>status = 200, json = JArray three_games\<rparr>)
         (Resolves \<lparr>status = 200, json = [''id'' \<mapsto> JNum 7, ''name'' \<mapsto> JStr ''X'']\<rparr>)
         (Resolves \<lparr>status = 204, json = ()\<rparr>), opn).
      opn \<leftarrow> [Load, Create [''name'' \<mapsto> JStr ''X''] True True,
              Update 7 [''name'' \<mapsto> JStr ''X''] True True, Destroy 5 True True]]
     (signed_in, store_of [])"
    by (simp add: answering_def signed_in_def store_of_def three_games_def distinct_ids_def
          has_id_def fetchGames_def fetchGames_fn_def createGame_def createGame_fn_def
          updateGame_def updateGame_fn_def withTokenRefresh_def withTokenRefresh_loop.simps
          called_def start_def run_microtasks_def run_login_microtasks_def
          run_store_microtasks_def setGamesLoadingState_def setGames_def setFlashProps_def
          setModalProps_def invoke_def fetchGames_then_def createGame_then_def
          updateGame_then_def findIndex_def)
  from operations_keep_ids_distinct [OF d i a] d i a show ?thesis by simp
qed

text \<open>
  Claim C5: with a session held and no other request in flight, when the create request
  resolves with a body that has the key \<^verbatim>\<open>name\<close>, the collection after \<^const>\<open>createGame\<close> is the returned game followed by
  the collection before: the game is at index 0, the length grew by one, and the entry
  that was at index \<open>i\<close> is at index \<open>i + 1\<close>.
\<close>

theorem createGame_prepends:
  assumes "user lg = Some u" "token lg = Some t" "t \<noteq> []"
    and "postGames api body t = Resolves r" and "json r ''name'' \<noteq> None"
    and "chains st = []"
  shows "games (snd (createGame api body onSuccess onError (lg, st))) = json r # games st \<and>
         games (snd (createGame api body onSuccess onError (lg, st))) ! 0 = json r \<and>
         length (games (snd (createGame api body onSuccess onError (lg, st)))) =
           length (games st) + 1 \<and>
         (\<forall>i<length (games st).
            games (snd (createGame api body onSuccess onError (lg, st))) ! (i + 1) = games st ! i)"
proof -
  have "games (snd (createGame api body onSuccess onError (lg, st))) = json r # games st"
    using assms(4,5) by (simp add: createGame_session [OF assms(1-3)] createGame_then_def)
  then show ?thesis by simp
qed

theorem createGame_prepends_witness:
  "chains (store_of three_games) = [] \<and>
   postGames (answering (Resolves \<lparr>status = 201, json = [''id'' \<mapsto> JNum 11, ''name'' \<mapsto> JStr ''X'']\<rparr>)
        (Rejects unauthorized) (Rejects unauthorized) (Rejects unauthorized))
     [''name'' \<mapsto> JStr ''X''] ''stale'' =
     Resolves \<lparr>status = 201, json = [''id'' \<mapsto> JNum 11, ''name'' \<mapsto> JStr ''X'']\<rparr> \<and>
   games (snd (createGame
     (answering (Resolves \<lparr>status = 201, json = [''id'' \<mapsto> JNum 11, ''name'' \<mapsto> JStr ''X'']\<rparr>)
        (Rejects unauthorized) (Rejects unauthorized) (Rejects unauthorized))
     [''name'' \<mapsto> JStr ''X''] True True (signed_in, store_of three_games))) =
   [''id'' \<mapsto> JNum 11, ''name'' \<mapsto> JStr ''X''] # three_games"
  using createGame_prepends
    [OF signed_in_session,
     where api = "answering
           (Resolves \<lparr>status = 201, json = [''id'' \<mapsto> JNum 11, ''name'' \<mapsto> JStr ''X'']\<rparr>)
           (Rejects unauthorized) (Rejects unauthorized) (Rejects unauthorized)"
       and body = "[''name'' \<mapsto> JStr ''X'']"
       and r = "\<lparr>status = 201, json = [''id'' \<mapsto> JNum 11, ''name'' \<mapsto> JStr ''X'']\<rparr>"
       and onSuccess = True and onError = True and st = "store_of three_games"]
  by (simp add: answering_def store_of_def)

text \<open>
  Claim C6: with a session held and no other request in flight, when the update request
  resolves with status 200 and the collection has an entry with the given id, \<^const>\<open>updateGame\<close> puts the returned game
  at the index of the first such entry; every other index keeps its entry and the length
  is unchanged.  The witness is the scenario of the specification: updating 7 in
  \<^verbatim>\<open>[{id:5},{id:7},{id:9}]\<close> with the answer \<^verbatim>\<open>{id:7, name:"X"}\<close>.
\<close>

theorem updateGame_replaces_in_place:
  assumes "user lg = Some u" "token lg = Some t" "t \<noteq> []"
    and "patchGame api gameId attributes t = Resolves r" and "status r = 200"
    and "\<exists>el\<in>set (games st). has_id gameId el"
    and "chains st = []"
  shows "\<exists>i<length (games st).
           has_id gameId (games st ! i) \<and> (\<forall>j<i. \<not> has_id gameId (games st ! j)) \<and>
           games (snd (updateGame api gameId attributes onSuccess onError (lg, st))) =
             (games st)[i := json r] \<and>
           games (snd (updateGame api gameId attributes onSuccess onError (lg, st))) ! i =
             json r \<and>
           (\<forall>j<length (games st). j \<noteq> i \<longrightarrow>
              games (snd (updateGame api gameId attributes onSuccess onError (lg, st))) ! j =
                games st ! j) \<and>
           length (games (snd (updateGame api gameId attributes onSuccess onError (lg, st)))) =
             length (games st)"
proof -
  from findIndex_first [OF assms(6)] obtain i where i: "i < length (games st)"
    "findIndex (has_id gameId) (games st) = int i" "has_id gameId (games st ! i)"
    "\<forall>j<i. \<not> has_id gameId (games st ! j)"
    by blast
  have "games (snd (updateGame api gameId attributes onSuccess onError (lg, st))) =
        (games st)[i := json r]"
    using assms(4,5) i(2)
    by (simp add: updateGame_session [OF assms(1-3)] updateGame_then_def)
  with i(1,3,4) show ?thesis by (intro exI [of _ i]) simp
qed

theorem updateGame_replaces_in_place_witness:
  "has_id 7 (games (store_of three_games) ! 1) \<and>
   chains (store_of three_games) = [] \<and>
   games (snd (updateGame
     (answering (Rejects unauthorized) (Rejects unauthorized)
        (Resolves \<lparr>status = 200, json = [''id'' \<mapsto> JNum 7, ''name'' \<mapsto> JStr ''X'']\<rparr>)
        (Rejects unauthorized))
     7 [''name'' \<mapsto> JStr ''X''] True True (signed_in, store_of three_games))) =
   [[''id'' \<mapsto> JNum 5], [''id'' \<mapsto> JNum 7, ''name'' \<mapsto> JStr ''X''], [''id'' \<mapsto> JNum 9]]"
proof -
  have h: "\<exists>el\<in>set (games (store_of three_games)). has_id 7 el"
    by (simp add: store_of_def three_games_def has_id_def)
  have p: "patchGame
     (answering (Rejects unauthorized) (Rejects unauthorized)
        (Resolves \<lparr>status = 200, json = [''id'' \<mapsto> JNum 7, ''name'' \<mapsto> JStr ''X'']\<rparr>)
        (Rejects unauthorized)) 7 [''name'' \<mapsto> JStr ''X''] ''stale'' =
     Resolves \<lparr>status = 200, json = [''id'' \<mapsto> JNum 7, ''name'' \<mapsto> JStr ''X'']\<rparr>"
    by (simp add: answering_def)
  have c: "chains (store_of three_games) = []"
    by (simp add: store_of_def)
  from updateGame_replaces_in_place [OF signed_in_session p _ h c, of True True]
  obtain i where i: "i < length (games (store_of three_games))"
    "has_id 7 (games (store_of three_games) ! i)"
    "games (snd (updateGame
       (answering (Rejects unauthorized) (Rejects unauthorized)
          (Resolves \<lparr>status = 200, json = [''id'' \<mapsto> JNum 7, ''name'' \<mapsto> JStr ''X'']\<rparr>)
          (Rejects unauthorized))
       7 [''name'' \<mapsto> JStr ''X''] True True (signed_in, store_of three_games))) =
     (games (store_of three_games))[i := [''id'' \<mapsto> JNum 7, ''name'' \<mapsto> JStr ''X'']]"
    by auto
  from i(1) have "i = 0 \<or> i = 1 \<or> i = 2"
    by (simp add: store_of_def three_games_def) arith
  with i(2) have "i = 1"
    by (auto simp: store_of_def three_games_def has_id_def)
  with i(2,3) c show ?thesis by (simp add: store_of_def three_games_def)
qed

text \<open>
  Claim C7: with a session held and no other request in flight, when the delete request
  resolves with status 204 and the collection has exactly one entry with the given id, \<^const>\<open>destroyGame\<close> leaves the
  collection with that entry cut out: the entries before and after it keep their order, no
  entry has the id, and the length is one less.  The witness is the scenario of the
  specification: destroying 7 in \<^verbatim>\<open>[{id:5},{id:7},{id:9}]\<close>.
\<close>

theorem destroyGame_removes_entry:
  assumes "user lg = Some u" "token lg = Some t" "t \<noteq> []"
    and "deleteGame api gameId t = Resolves r" and "status r = 204"
    and "length (filter (has_id gameId) (games st)) = 1"
    and "chains st = []"
  shows "\<exists>pre x post. games st = pre @ x # post \<and> has_id gameId x \<and>
           games (snd (destroyGame api gameId onSuccess onError (lg, st))) = pre @ post \<and>
           (\<forall>el\<in>set (games (snd (destroyGame api gameId onSuccess onError (lg, st)))).
              \<not> has_id gameId el) \<and>
           length (games (snd (destroyGame api gameId onSuccess onError (lg, st)))) =
             length (games st) - 1"
proof -
  have g: "games (snd (destroyGame api gameId onSuccess onError (lg, st))) =
        filter (\<lambda>el. \<not> has_id gameId el) (games st)"
    using assms(4,5) by (simp add: destroyGame_session [OF assms(1-3)] destroyGame_then_def)
  from filter_one_split [OF assms(6)] obtain pre x post where s:
    "games st = pre @ x # post" "has_id gameId x"
    "filter (\<lambda>el. \<not> has_id gameId el) (games st) = pre @ post"
    by blast
  have len: "length (filter (\<lambda>el. \<not> has_id gameId el) (games st)) = length (games st) - 1"
    using assms(6) sum_length_filter_compl [of "has_id gameId" "games st"] by simp
  show ?thesis
  proof (intro exI conjI)
    show "games st = pre @ x # post" by (fact s(1))
    show "has_id gameId x" by (fact s(2))
    show "games (snd (destroyGame api gameId onSuccess onError (lg, st))) = pre @ post"
      by (simp only: g s(3))
    show "\<forall>el\<in>set (games (snd (destroyGame api gameId onSuccess onError (lg, st)))).
            \<not> has_id gameId el"
      by (simp add: g)
    show "length (games (snd (destroyGame api gameId onSuccess onError (lg, st)))) =
            length (games st) - 1"
      by (simp only: g len)
  qed
qed

theorem destroyGame_removes_entry_witness:
  "length (filter (has_id 7) (games (store_of three_games))) = 1 \<and>
   chains (store_of three_games) = [] \<and>
   games (snd (destroyGame
     (answering (Rejects unauthorized) (Rejects unauthorized) (Rejects unauthorized)
        (Resolves \<lparr>status = 204, json = ()\<rparr>))
     7 True True (signed_in, store_of three_games))) =
   [[''id'' \<mapsto> JNum 5], [''id'' \<mapsto> JNum 9]]"
proof -
  have h: "length (filter (has_id 7) (games (store_of three_games))) = 1"
    by (simp add: store_of_def three_games_def has_id_def)
  have p: "deleteGame
     (answering (Rejects unauthorized) (Rejects unauthorized) (Rejects unauthorized)
        (Resolves \<lparr>status = 204, json = ()\<rparr>)) 7 ''stale'' =
     Resolves \<lparr>status = 204, json = ()\<rparr>"
    by (simp add: answering_def)
  have c: "chains (store_of three_games) = []"
    by (simp add: store_of_def)
  from destroyGame_removes_entry [OF signed_in_session p _ h c, of True True]
  have "length (games (snd (destroyGame
       (answering (Rejects unauthorized) (Rejects unauthorized) (Rejects unauthorized)
          (Resolves \<lparr>status = 204, json = ()\<rparr>))
       7 True True (signed_in, store_of three_games)))) =
     length (games (store_of three_games)) - 1"
    by simp blast
  then have "length (games (snd (destroyGame
       (answering (Rejects unauthorized) (Rejects unauthorized) (Rejects unauthorized)
          (Resolves \<lparr>status = 204, json = ()\<rparr>))
       7 True True (signed_in, store_of three_games)))) = 2"
    by (simp add: store_of_def three_games_def)
  moreover have "games (snd (destroyGame
       (answering (Rejects unauthorized) (Rejects unauthorized) (Rejects unauthorized)
          (Resolves \<lparr>status = 204, json = ()\<rparr>))
       7 True True (signed_in, store_of three_games))) =
     [[''id'' \<mapsto> JNum 5], [''id'' \<mapsto> JNum 9]]"
    by (simp add: destroyGame_session [OF signed_in_session] answering_def
          destroyGame_then_def store_of_def three_games_def has_id_def
          run_store_microtasks_def)
  ultimately show ?thesis using h c by simp
qed

text \<open>
  Claim C8: with a session held, when the list request is rejected with a status other
  than 401, \<^const>\<open>fetchGames\<close> leaves an empty collection and the loading state
  \<^const>\<open>ERROR\<close>; when it resolves with an array, the collection is that array, whatever
  it held before, and the loading state is \<^const>\<open>DONE\<close>.
\<close>

theorem fetchGames_replaces_collection:
  assumes "user lg = Some u" "token lg = Some t" "t \<noteq> []"
  shows "(getGames api t = Rejects e \<and> code e \<noteq> 401 \<longrightarrow>
            games (snd (fetchGames api (lg, st))) = [] \<and>
            gamesLoadingState (snd (fetchGames api (lg, st))) = ERROR) \<and>
         (getGames api t = Resolves r \<and> json r = JArray gs \<longrightarrow>
            games (snd (fetchGames api (lg, st))) = gs \<and>
            gamesLoadingState (snd (fetchGames api (lg, st))) = DONE)"
  by (simp add: fetchGames_session [OF assms] fetchGames_then_def fetchGames_catch_def
        rethrown_def)

theorem fetchGames_replaces_collection_witness:
  "code \<lparr>code = 500, message = Message ''Internal Server Error''\<rparr> \<noteq> 401 \<and>
   games (snd (fetchGames
     (answering (Rejects unauthorized)
        (Rejects \<lparr>code = 500, message = Message ''Internal Server Error''\<rparr>)
        (Rejects unauthorized) (Rejects unauthorized))
     (signed_in, store_of three_games))) = [] \<and>
   gamesLoadingState (snd (fetchGames
     (answering (Rejects unauthorized)
        (Rejects \<lparr>code = 500, message = Message ''Internal Server Error''\<rparr>)
        (Rejects unauthorized) (Rejects unauthorized))
     (signed_in, store_of three_games))) = ERROR \<and>
   games (snd (fetchGames
     (answering (Rejects unauthorized)
        (Resolves \<lparr>status = 200, json = JArray [[''id'' \<mapsto> JNum 2]]\<rparr>)
        (Rejects unauthorized) (Rejects unauthorized))
     (signed_in, store_of three_games))) = [[''id'' \<mapsto> JNum 2]] \<and>
   gamesLoadingState (snd (fetchGames
     (answering (Rejects unauthorized)
        (Resolves \<lparr>status = 200, json = JArray [[''id'' \<mapsto> JNum 2]]\<rparr>)
        (Rejects unauthorized) (Rejects unauthorized))
     (signed_in, store_of three_games))) = DONE"
  using
    fetchGames_replaces_collection
      [OF signed_in_session,
       of "answering (Rejects unauthorized)
             (Rejects \<lparr>code = 500, message = Message ''Internal Server Error''\<rparr>)
             (Rejects unauthorized) (Rejects unauthorized)"
          "\<lparr>code = 500, message = Message ''Internal Server Error''\<rparr>"
          "store_of three_games"]
    fetchGames_replaces_collection
      [OF signed_in_session,
       of "answering (Rejects unauthorized)
             (Resolves \<lparr>status = 200, json = JArray [[''id'' \<mapsto> JNum 2]]\<rparr>)
             (Rejects unauthorized) (Rejects unauthorized)"
          _ "store_of three_games"
          "\<lparr>status = 200, json = JArray [[''id'' \<mapsto> JNum 2]]\<rparr>" "[[''id'' \<mapsto> JNum 2]]"]
  by (simp add: answering_def)

text \<open>
  Claim C9: \<^const>\<open>handleApiError\<close> shows exactly one flash message of type error.  For
  an error whose message is a list of \<open>N\<close> strings, the header starts with the decimal
  numeral of \<open>N\<close> and the message is that list; for a single message with status 404 it is
  the fixed not-found text; for a single message with any other status it is the fixed
  unexpected-error text.
\<close>

theorem handleApiError_classifies:
  "handleApiError \<lparr>code = c, message = Messages ms\<rparr> st =
     setFlashProps
       \<lparr>flash_hidden = False, flash_type = FlashError,
        flash_header =
          Some (string_of_nat (length ms) @ '' error(s) prevented your game from being saved:''),
        flash_message = Messages ms\<rparr> st \<and>
   handleApiError \<lparr>code = 404, message = Message s\<rparr> st =
     setFlashProps
       \<lparr>flash_hidden = False, flash_type = FlashError, flash_header = None,
        flash_message = Message NOT_FOUND_MESSAGE\<rparr> st \<and>
   (c \<noteq> 404 \<longrightarrow>
    handleApiError \<lparr>code = c, message = Message s\<rparr> st =
      setFlashProps
        \<lparr>flash_hidden = False, flash_type = FlashError, flash_header = None,
         flash_message = Message UNEXPECTED_ERROR_MESSAGE\<rparr> st)"
  by (simp add: handleApiError_def)

theorem handleApiError_classifies_witness:
  "(500::int) \<noteq> 404 \<and>
   flashes (handleApiError
     \<lparr>code = 422, message = Messages [''Name is too long'', ''Name is taken'', ''Name is odd'']\<rparr>
     (store_of [])) =
     [\<lparr>flash_hidden = False, flash_type = FlashError,
       flash_header = Some ''3 error(s) prevented your game from being saved:'',
       flash_message = Messages [''Name is too long'', ''Name is taken'', ''Name is odd'']\<rparr>] \<and>
   flashes (handleApiError \<lparr>code = 500, message = Message ''Internal Server Error''\<rparr>
     (store_of [])) =
     [\<lparr>flash_hidden = False, flash_type = FlashError, flash_header = None,
       flash_message = Message UNEXPECTED_ERROR_MESSAGE\<rparr>]"
proof -
  have n: "string_of_nat (Suc (Suc (Suc 0))) = ''3''"
    by (simp add: string_of_nat.simps [of "Suc (Suc (Suc 0))"] digit_def)
  show ?thesis
    using
      handleApiError_classifies
        [of 422 "[''Name is too long'', ''Name is taken'', ''Name is odd'']" "store_of []"
            "''Not Found''"]
      handleApiError_classifies [of 500 "[]" "store_of []" "''Internal Server Error''"]
    by (simp add: setFlashProps_def store_of_def n)
qed

text \<open>
  Claim C10: with a session held and no other request in flight, a mutation whose request
  resolves applies its changes exactly when the response has the expected shape: the key
  \<^verbatim>\<open>name\<close> in the body for \<^const>\<open>createGame\<close>, status 200 for \<^const>\<open>updateGame\<close>,
  status 204 for \<^const>\<open>destroyGame\<close>.  With that shape one success flash is added and
  \<^verbatim>\<open>onSuccess\<close>, if defined, is invoked once.  With any other resolved response the store
  is the store before the call with the request added to the list of requests: the
  collection, the loading state, the flash messages, the modal and the callbacks are
  untouched.
\<close>

theorem mutations_need_exact_response_shape:
  assumes "user lg = Some u" "token lg = Some t" "t \<noteq> []" and "chains st = []"
  shows "(postGames api body t = Resolves r1 \<longrightarrow>
            (json r1 ''name'' = None \<longrightarrow>
               snd (createGame api body onSuccess onError (lg, st)) =
                 st\<lparr>requests := requests st @ [PostGames body t]\<rparr>) \<and>
            (json r1 ''name'' \<noteq> None \<longrightarrow>
               length (flashes (snd (createGame api body onSuccess onError (lg, st)))) =
                 length (flashes st) + 1 \<and>
               callbacks (snd (createGame api body onSuccess onError (lg, st))) =
                 callbacks st @ (if onSuccess then [OnSuccessCalled] else []))) \<and>
         (patchGame api gameId attributes t = Resolves r2 \<longrightarrow>
            (status r2 \<noteq> 200 \<longrightarrow>
               snd (updateGame api gameId attributes onSuccess onError (lg, st)) =
                 st\<lparr>requests := requests st @ [PatchGame gameId attributes t]\<rparr>) \<and>
            (status r2 = 200 \<longrightarrow>
               length (flashes (snd (updateGame api gameId attributes onSuccess onError (lg, st)))) =
                 length (flashes st) + 1 \<and>
               callbacks (snd (updateGame api gameId attributes onSuccess onError (lg, st))) =
                 callbacks st @ (if onSuccess then [OnSuccessCalled] else []))) \<and>
         (deleteGame api gameId t = Resolves r3 \<longrightarrow>
            (status r3 \<noteq> 204 \<longrightarrow>
               snd (destroyGame api gameId onSuccess onError (lg, st)) =
                 st\<lparr>requests := requests st @ [DeleteGame gameId t]\<rparr>) \<and>
            (status r3 = 204 \<longrightarrow>
               length (flashes (snd (destroyGame api gameId onSuccess onError (lg, st)))) =
                 length (flashes st) + 1 \<and>
               callbacks (snd (destroyGame api gameId onSuccess onError (lg, st))) =
                 callbacks st @ (if onSuccess then [OnSuccessCalled] else [])))"
proof (intro conjI)
  have idle: "run_store_microtasks (st\<lparr>requests := requests st @ [rq]\<rparr>) =
        st\<lparr>requests := requests st @ [rq]\<rparr>" for rq
    using assms(4) by (simp add: run_store_idle)
  show "postGames api body t = Resolves r1 \<longrightarrow>
            (json r1 ''name'' = None \<longrightarrow>
               snd (createGame api body onSuccess onError (lg, st)) =
                 st\<lparr>requests := requests st @ [PostGames body t]\<rparr>) \<and>
            (json r1 ''name'' \<noteq> None \<longrightarrow>
               length (flashes (snd (createGame api body onSuccess onError (lg, st)))) =
                 length (flashes st) + 1 \<and>
               callbacks (snd (createGame api body onSuccess onError (lg, st))) =
                 callbacks st @ (if onSuccess then [OnSuccessCalled] else []))"
    by (simp add: createGame_session [OF assms(1-3)] idle createGame_then_def invoke_def
          setFlashProps_def setGames_def)
  show "patchGame api gameId attributes t = Resolves r2 \<longrightarrow>
            (status r2 \<noteq> 200 \<longrightarrow>
               snd (updateGame api gameId attributes onSuccess onError (lg, st)) =
                 st\<lparr>requests := requests st @ [PatchGame gameId attributes t]\<rparr>) \<and>
            (status r2 = 200 \<longrightarrow>
               length (flashes (snd (updateGame api gameId attributes onSuccess onError (lg, st)))) =
                 length (flashes st) + 1 \<and>
               callbacks (snd (updateGame api gameId attributes onSuccess onError (lg, st))) =
                 callbacks st @ (if onSuccess then [OnSuccessCalled] else []))"
    by (simp add: updateGame_session [OF assms(1-3)] idle updateGame_then_def invoke_def
          setFlashProps_def setModalProps_def setGames_def Let_def)
  show "deleteGame api gameId t = Resolves r3 \<longrightarrow>
            (status r3 \<noteq> 204 \<longrightarrow>
               snd (destroyGame api gameId onSuccess onError (lg, st)) =
                 st\<lparr>requests := requests st @ [DeleteGame gameId t]\<rparr>) \<and>
            (status r3 = 204 \<longrightarrow>
               length (flashes (snd (destroyGame api gameId onSuccess onError (lg, st)))) =
                 length (flashes st) + 1 \<and>
               callbacks (snd (destroyGame api gameId onSuccess onError (lg, st))) =
                 callbacks st @ (if onSuccess then [OnSuccessCalled] else []))"
    by (simp add: destroyGame_session [OF assms(1-3)] idle destroyGame_then_def invoke_def
          setFlashProps_def setGames_def)
qed

theorem mutations_need_exact_response_shape_witness:
  "snd (createGame
     (answering (Resolves \<lparr>status = 422, json = [''errors'' \<mapsto> JStr ''Name is taken'']\<rparr>)
        (Rejects unauthorized) (Resolves \<lparr>status = 204, json = Map.empty\<rparr>)
        (Resolves \<lparr>status = 200, json = ()\<rparr>))
     [''name'' \<mapsto> JStr ''X''] True True (signed_in, store_of three_games)) =
     (store_of three_games)\<lparr>requests := [PostGames [''name'' \<mapsto> JStr ''X''] ''stale'']\<rparr> \<and>
   snd (updateGame
     (answering (Resolves \<lparr>status = 422, json = [''errors'' \<mapsto> JStr ''Name is taken'']\<rparr>)
        (Rejects unauthorized) (Resolves \<lparr>status = 204, json = Map.empty\<rparr>)
        (Resolves \<lparr>status = 200, json = ()\<rparr>))
     7 [''name'' \<mapsto> JStr ''X''] True True (signed_in, store_of three_games)) =
     (store_of three_games)\<lparr>requests := [PatchGame 7 [''name'' \<mapsto> JStr ''X''] ''stale'']\<rparr> \<and>
   snd (destroyGame
     (answering (Resolves \<lparr>status = 422, json = [''errors'' \<mapsto> JStr ''Name is taken'']\<rparr>)
        (Rejects unauthorized) (Resolves \<lparr>status = 204, json = Map.empty\<rparr>)
        (Resolves \<lparr>status = 200, json = ()\<rparr>))
     7 True True (signed_in, store_of three_games)) =
     (store_of three_games)\<lparr>requests := [DeleteGame 7 ''stale'']\<rparr> \<and>
   callbacks (snd (createGame
     (answering (Resolves \<lparr>status = 201, json = [''id'' \<mapsto> JNum 11, ''name'' \<mapsto> JStr ''X'']\<rparr>)
        (Rejects unauthorized) (Resolves \<lparr>status = 200, json = [''id'' \<mapsto> JNum 7]\<rparr>)
        (Resolves \<lparr>status = 204, json = ()\<rparr>))
     [''name'' \<mapsto> JStr ''X''] True True (signed_in, store_of three_games))) =
     [OnSuccessCalled] \<and>
   callbacks (snd (updateGame
     (answering (Resolves \<lparr>status = 201, json = [''id'' \<mapsto> JNum 11, ''name'' \<mapsto> JStr ''X'']\<rparr>)
        (Rejects unauthorized) (Resolves \<lparr>status = 200, json = [''id'' \<mapsto> JNum 7]\<rparr>)
        (Resolves \<lparr>status = 204, json = ()\<rparr>))
     7 [''name'' \<mapsto> JStr ''X''] True True (signed_in, store_of three_games))) =
     [OnSuccessCalled] \<and>
   callbacks (snd (destroyGame
     (answering (Resolves \<lparr>status = 201, json = [''id'' \<mapsto> JNum 11, ''name'' \<mapsto> JStr ''X'']\<rparr>)
        (Rejects unauthorized) (Resolves \<lparr>status = 200, json = [''id'' \<mapsto> JNum 7]\<rparr>)
        (Resolves \<lparr>status = 204, json = ()\<rparr>))
     7 True True (signed_in, store_of three_games))) =
     [OnSuccessCalled]"
proof -
  have i: "chains (store_of three_games) = []"
    by (simp add: store_of_def)
  show ?thesis
    using
      mutations_need_exact_response_shape
        [OF signed_in_session i,
         where api = "answering
             (Resolves \<lparr>status = 422, json = [''errors'' \<mapsto> JStr ''Name is taken'']\<rparr>)
             (Rejects unauthorized) (Resolves \<lparr>status = 204, json = Map.empty\<rparr>)
             (Resolves \<lparr>status = 200, json = ()\<rparr>)"
           and body = "[''name'' \<mapsto> JStr ''X'']" and attributes = "[''name'' \<mapsto> JStr ''X'']"
           and gameId = 7 and onSuccess = True and onError = True
           and ?r1.0 = "\<lparr>status = 422, json = [''errors'' \<mapsto> JStr ''Name is taken'']\<rparr>"
           and ?r2.0 = "\<lparr>status = 204, json = Map.empty\<rparr>"
           and ?r3.0 = "\<lparr>status = 200, json = ()\<rparr>"]
      mutations_need_exact_response_shape
        [OF signed_in_session i,
         where api = "answering
             (Resolves \<lparr>status = 201, json = [''id'' \<mapsto> JNum 11, ''name'' \<mapsto> JStr ''X'']\<rparr>)
             (Rejects unauthorized) (Resolves \<lparr>status = 200, json = [''id'' \<mapsto> JNum 7]\<rparr>)
             (Resolves \<lparr>status = 204, json = ()\<rparr>)"
           and body = "[''name'' \<mapsto> JStr ''X'']" and attributes = "[''name'' \<mapsto> JStr ''X'']"
           and gameId = 7 and onSuccess = True and onError = True
           and ?r1.0 = "\<lparr>status = 201, json = [''id'' \<mapsto> JNum 11, ''name'' \<mapsto> JStr ''X'']\<rparr>"
           and ?r2.0 = "\<lparr>status = 200, json = [''id'' \<mapsto> JNum 7]\<rparr>"
           and ?r3.0 = "\<lparr>status = 204, json = ()\<rparr>"]
    by (simp add: answering_def store_of_def)
qed

end
